theory Spec2Isabelle
  imports Main
begin

section \<open>Data model of \<open>src/index.tsx\<close>\<close>

text \<open>
  The source file holds the package twice, once for Remix and once for React Router. The
  two copies of the functions modelled here differ only in two string constants: the
  prefix of the error message and the host name of the synthetic address in
  \<open>parseHref\<close>. The model follows the first copy.

  Strings are lists of characters. The program only concatenates strings, takes prefixes
  and suffixes by length, and compares single code units with the slash, so nothing below
  depends on the alphabet.

  The platform's \<open>URL\<close> class is not part of the repository. The fields the program reads
  from a parsed URL are collected in the record \<open>URL\<close>, and the constructor
  \<open>new URL(s)\<close> is a parameter \<open>U\<close> of every function that calls it: \<open>U s = None\<close>
  when the constructor throws, \<open>U s = Some url\<close> when it returns. The theorems hold for
  every such \<open>U\<close>.
\<close>

record URL =
  url_href :: string
  url_protocol :: string
  url_host :: string
  url_pathname :: string
  url_search :: string
  url_hash :: string

type_synonym URL_ctor = "string \<Rightarrow> URL option"

text \<open>The interface \<open>HREF\<close>, with the field names of the source.\<close>

record HREF =
  href :: string
  prototcol :: string
  host :: string
  pathname :: string
  search :: string
  hash :: string
  isOutgoing :: bool
  isAbsolute :: bool

text \<open>
  The router's \<open>To\<close> is \<open>string | Partial<Path>\<close>: a string, or an object whose three
  fields may each be missing.
\<close>

record Path =
  path_pathname :: "string option"
  path_search :: "string option"
  path_hash :: "string option"

datatype To = ToString string | ToPath Path

text \<open>
  Two things can be thrown: the \<open>Error\<close> of \<open>throwError\<close>, with its message, and the
  \<open>TypeError\<close> of the \<open>URL\<close> constructor where the program calls it outside a \<open>try\<close>.
\<close>

datatype error = Error string | TypeError

section \<open>JavaScript primitives\<close>

text \<open>Truthiness of an optional boolean (\<open>undefined\<close> and \<open>false\<close> are falsy).\<close>

fun truthy :: "bool option \<Rightarrow> bool" where
  "truthy None = False"
| "truthy (Some b) = b"

text \<open>Truthiness of an optional string (\<open>undefined\<close> and the empty string are falsy).\<close>

fun truthy_string :: "string option \<Rightarrow> bool" where
  "truthy_string None = False"
| "truthy_string (Some s) = (s \<noteq> [])"

text \<open>\<open>s.startsWith(p)\<close> and \<open>s.substring(n)\<close>.\<close>

definition startsWith :: "string \<Rightarrow> string \<Rightarrow> bool" where
  "startsWith s p = (take (length p) s = p)"

definition substring :: "string \<Rightarrow> nat \<Rightarrow> string" where
  "substring s n = drop n s"

section \<open>The functions of the source\<close>

definition throwError :: "string \<Rightarrow> error + 'a" where
  "throwError message = Inl (Error (''remix-isomorphic-link: '' @ message))"

definition isUrl :: "URL_ctor \<Rightarrow> string \<Rightarrow> bool" where
  "isUrl U h = (case U h of Some _ \<Rightarrow> True | None \<Rightarrow> False)"

definition isInHostDomain :: "URL \<Rightarrow> string option \<Rightarrow> bool" where
  "isInHostDomain url hst = (Some (url_host url) = hst)"

definition urlToHref :: "URL \<Rightarrow> string option \<Rightarrow> HREF" where
  "urlToHref url hst =
     \<lparr> href = url_href url,
       prototcol = url_protocol url,
       host = url_host url,
       pathname = url_pathname url,
       search = url_search url,
       hash = url_hash url,
       isOutgoing = (\<not> isInHostDomain url hst),
       isAbsolute = True \<rparr>"

text \<open>The local constants \<open>sanitizedHref\<close> and \<open>fakeUrl\<close> of \<open>parseHref\<close>.\<close>

definition sanitizedHref :: "string \<Rightarrow> string option \<Rightarrow> string" where
  "sanitizedHref h hst =
     (case hst of
        None \<Rightarrow> h
      | Some hs \<Rightarrow> if hs \<noteq> [] \<and> startsWith h hs then substring h (length hs) else h)"

definition fakeUrl :: "string \<Rightarrow> string option \<Rightarrow> string" where
  "fakeUrl h hst =
     ''https://remix-isomorphic-link.com'' @
       (if startsWith (sanitizedHref h hst) ''/'' then sanitizedHref h hst
        else ''/'' @ sanitizedHref h hst)"

definition parseHref :: "URL_ctor \<Rightarrow> string \<Rightarrow> string option \<Rightarrow> bool option \<Rightarrow> error + HREF" where
  "parseHref U h hst isExternal =
     (if isUrl U h then
        (case U h of
           None \<Rightarrow> Inl TypeError
         | Some url \<Rightarrow> Inr (urlToHref url hst))
      else if truthy isExternal then
        Inr \<lparr> href = h, prototcol = [], host = [], pathname = [], search = [], hash = [],
              isOutgoing = True, isAbsolute = True \<rparr>
      else
        (case U (fakeUrl h hst) of
           None \<Rightarrow> Inl TypeError
         | Some url \<Rightarrow>
             Inr \<lparr> href = h, prototcol = [], host = [],
                   pathname = url_pathname url,
                   search = url_search url,
                   hash = url_hash url,
                   isOutgoing = False,
                   isAbsolute = startsWith (sanitizedHref h hst) ''/'' \<rparr>))"

definition addFinalSlash :: "string \<Rightarrow> string" where
  "addFinalSlash p =
     (if p = [] then ''/''
      else if p ! (length p - 1) = CHR ''/'' then p
      else p @ ''/'')"

definition misuse_message :: string where
  "misuse_message =
     ''You specified '' @ [CHR 0x22] @ ''isExternal={true}'' @ [CHR 0x22] @
     '' but provided a to prop of type Path. Please provide your href as a string if you want it to be used as an outgoing link. Type Path can only be used for internal links.''"

definition sanitizeTo ::
  "URL_ctor \<Rightarrow> To \<Rightarrow> bool option \<Rightarrow> bool option \<Rightarrow> string option \<Rightarrow> error + (bool \<times> To)" where
  "sanitizeTo U to useTrailingSlash explicitlyOutgoing hst =
     (case to of
        ToPath p \<Rightarrow>
          if truthy explicitlyOutgoing then throwError misuse_message
          else
            Inr (False,
                 ToPath \<lparr> path_pathname =
                            (if truthy useTrailingSlash \<and> truthy_string (path_pathname p)
                             then map_option addFinalSlash (path_pathname p)
                             else path_pathname p),
                          path_search = path_search p,
                          path_hash = path_hash p \<rparr>)
      | ToString s \<Rightarrow>
          (case parseHref U s hst explicitlyOutgoing of
             Inl e \<Rightarrow> Inl e
           | Inr h \<Rightarrow>
               if isOutgoing h then Inr (True, ToString s)
               else
                 Inr (False,
                      ToString ((if truthy useTrailingSlash then addFinalSlash (pathname h)
                                 else pathname h) @ search h @ hash h))))"

section \<open>A concrete URL constructor for closed instances\<close>

text \<open>
  The closed instances below need one concrete constructor. \<open>simpleURL\<close> follows the
  platform's parser on the plain inputs used there: a scheme (a letter, then letters,
  digits, \<open>+\<close>, \<open>-\<close>, \<open>.\<close>) closed by a colon, or else a failure; the fragment from
  the first \<open>#\<close>, the query from the first \<open>?\<close> before it; for the schemes with a
  mandatory host the slashes after the colon are skipped, the host runs to the next
  slash and must not be empty, and an empty path reads \<open>/\<close>; for any other scheme a
  host is read only after \<open>//\<close>, and otherwise the rest is the path as it stands.
  It does not lower-case, percent-encode, strip white space, treat backslashes, user
  names or ports, or resolve dot segments, and it knows no \<open>file:\<close> scheme; no instance
  below uses such an input.
\<close>

definition alpha_char :: "char \<Rightarrow> bool" where
  "alpha_char c = (c \<in> set ''abcdefghijklmnopqrstuvwxyzABCDEFGHIJKLMNOPQRSTUVWXYZ'')"

definition scheme_char :: "char \<Rightarrow> bool" where
  "scheme_char c = (alpha_char c \<or> c \<in> set ''0123456789+-.'')"

definition special_scheme :: "string \<Rightarrow> bool" where
  "special_scheme s = (s \<in> set [''http'', ''https'', ''ws'', ''wss'', ''ftp''])"

definition simpleURL :: URL_ctor where
  "simpleURL s =
     (case takeWhile scheme_char s of
        [] \<Rightarrow> None
      | c # cs \<Rightarrow>
          if alpha_char c \<and> take 1 (drop (Suc (length cs)) s) = '':'' then
            (let rest = drop (Suc (Suc (length cs))) s;
                 body = takeWhile (\<lambda>x. x \<noteq> CHR ''#'') rest;
                 frag = dropWhile (\<lambda>x. x \<noteq> CHR ''#'') rest;
                 main = takeWhile (\<lambda>x. x \<noteq> CHR ''?'') body;
                 query = dropWhile (\<lambda>x. x \<noteq> CHR ''?'') body;
                 srch = (if length query \<le> 1 then [] else query);
                 hsh = (if length frag \<le> 1 then [] else frag)
             in if special_scheme (c # cs) then
                  (let a = dropWhile (\<lambda>x. x = CHR ''/'') main;
                       auth = takeWhile (\<lambda>x. x \<noteq> CHR ''/'') a;
                       path = dropWhile (\<lambda>x. x \<noteq> CHR ''/'') a;
                       pth = (if path = [] then ''/'' else path)
                   in if auth = [] then None
                      else Some \<lparr> url_href = (c # cs) @ ''://'' @ auth @ pth @ query @ frag,
                                  url_protocol = (c # cs) @ '':'',
                                  url_host = auth,
                                  url_pathname = pth,
                                  url_search = srch,
                                  url_hash = hsh \<rparr>)
                else if take 2 main = ''//'' then
                  (let auth = takeWhile (\<lambda>x. x \<noteq> CHR ''/'') (drop 2 main);
                       path = dropWhile (\<lambda>x. x \<noteq> CHR ''/'') (drop 2 main)
                   in Some \<lparr> url_href = (c # cs) @ ''://'' @ auth @ path @ query @ frag,
                               url_protocol = (c # cs) @ '':'',
                               url_host = auth,
                               url_pathname = path,
                               url_search = srch,
                               url_hash = hsh \<rparr>)
                else
                  Some \<lparr> url_href = (c # cs) @ '':'' @ main @ query @ frag,
                          url_protocol = (c # cs) @ '':'',
                          url_host = [],
                          url_pathname = main,
                          url_search = srch,
                          url_hash = hsh \<rparr>)
          else None)"

section \<open>Auxiliary facts\<close>

lemma isUrl_iff: "isUrl U h \<longleftrightarrow> U h \<noteq> None"
  by (simp add: isUrl_def split: option.split)

lemma parseHref_url:
  assumes "U h = Some u"
  shows "parseHref U h hst ext = Inr (urlToHref u hst)"
  using assms by (simp add: parseHref_def isUrl_iff)

lemma parseHref_opaque:
  assumes "U h = None" and "truthy ext"
  shows "parseHref U h hst ext =
           Inr \<lparr> href = h, prototcol = [], host = [], pathname = [], search = [], hash = [],
                 isOutgoing = True, isAbsolute = True \<rparr>"
  using assms by (simp add: parseHref_def isUrl_iff)

lemma parseHref_guess:
  assumes "U h = None" and "\<not> truthy ext" and "U (fakeUrl h hst) = Some v"
  shows "parseHref U h hst ext =
           Inr \<lparr> href = h, prototcol = [], host = [],
                 pathname = url_pathname v, search = url_search v, hash = url_hash v,
                 isOutgoing = False,
                 isAbsolute = startsWith (sanitizedHref h hst) ''/'' \<rparr>"
  using assms by (simp add: parseHref_def isUrl_iff)

lemma isOutgoing_urlToHref: "isOutgoing (urlToHref u hst) \<longleftrightarrow> hst \<noteq> Some (url_host u)"
  by (auto simp add: urlToHref_def isInHostDomain_def)

lemma urlToHref_parts:
  "pathname (urlToHref u hst) = url_pathname u"
  "search (urlToHref u hst) = url_search u"
  "hash (urlToHref u hst) = url_hash u"
  by (simp_all add: urlToHref_def)

lemma sanitizeTo_string:
  assumes "parseHref U s hst ext = Inr h"
  shows "sanitizeTo U (ToString s) ts ext hst =
           (if isOutgoing h then Inr (True, ToString s)
            else Inr (False,
                      ToString ((if truthy ts then addFinalSlash (pathname h) else pathname h)
                                @ search h @ hash h)))"
  using assms by (simp add: sanitizeTo_def)

lemma sanitizeTo_url:
  assumes "U s = Some u"
  shows "sanitizeTo U (ToString s) ts ext hst =
           (if hst \<noteq> Some (url_host u) then Inr (True, ToString s)
            else Inr (False,
                      ToString ((if truthy ts then addFinalSlash (url_pathname u)
                                 else url_pathname u) @ url_search u @ url_hash u)))"
proof -
  from assms have "parseHref U s hst ext = Inr (urlToHref u hst)"
    by (rule parseHref_url)
  then have "sanitizeTo U (ToString s) ts ext hst =
      (if isOutgoing (urlToHref u hst) then Inr (True, ToString s)
       else Inr (False,
                 ToString ((if truthy ts then addFinalSlash (pathname (urlToHref u hst))
                            else pathname (urlToHref u hst))
                           @ search (urlToHref u hst) @ hash (urlToHref u hst))))"
    by (rule sanitizeTo_string)
  then show ?thesis
    by (simp add: isOutgoing_urlToHref urlToHref_parts)
qed

lemma addFinalSlash_empty: "addFinalSlash [] = ''/''"
  by (simp add: addFinalSlash_def)

lemma addFinalSlash_keep: "p \<noteq> [] \<Longrightarrow> last p = CHR ''/'' \<Longrightarrow> addFinalSlash p = p"
  by (simp add: addFinalSlash_def last_conv_nth)

lemma addFinalSlash_append:
  "p \<noteq> [] \<Longrightarrow> last p \<noteq> CHR ''/'' \<Longrightarrow> addFinalSlash p = p @ ''/''"
  by (simp add: addFinalSlash_def last_conv_nth)

lemma addFinalSlash_ends: "addFinalSlash p \<noteq> [] \<and> last (addFinalSlash p) = CHR ''/''"
  by (simp add: addFinalSlash_def last_conv_nth)

lemma startsWith_slash: "startsWith s ''/'' \<longleftrightarrow> (\<exists>t. s = CHR ''/'' # t)"
  by (cases s) (auto simp add: startsWith_def)

lemma addFinalSlash_leading:
  assumes "startsWith p ''/''"
  shows "startsWith (addFinalSlash p) ''/''"
  using assms by (auto simp add: startsWith_slash addFinalSlash_def)

lemma fakeUrl_base: "startsWith (fakeUrl h hst) ''https://remix-isomorphic-link.com/''"
  by (auto simp add: fakeUrl_def startsWith_slash) (simp_all add: startsWith_def)

text \<open>What \<open>simpleURL\<close> gives on the inputs of the closed instances.\<close>

lemmas simpleURL_defs = simpleURL_def scheme_char_def alpha_char_def special_scheme_def Let_def

lemma simpleURL_example_contact:
  "simpleURL ''https://example.com/contact'' =
     Some \<lparr> url_href = ''https://example.com/contact'', url_protocol = ''https:'',
            url_host = ''example.com'', url_pathname = ''/contact'',
            url_search = [], url_hash = [] \<rparr>"
  by (simp add: simpleURL_defs)

lemma simpleURL_example_query:
  "simpleURL ''https://example.com/contact?foo=bar#baz'' =
     Some \<lparr> url_href = ''https://example.com/contact?foo=bar#baz'', url_protocol = ''https:'',
            url_host = ''example.com'', url_pathname = ''/contact'',
            url_search = ''?foo=bar'', url_hash = ''#baz'' \<rparr>"
  by (simp add: simpleURL_defs)

lemma simpleURL_youtube:
  "simpleURL ''https://youtube.com'' =
     Some \<lparr> url_href = ''https://youtube.com/'', url_protocol = ''https:'',
            url_host = ''youtube.com'', url_pathname = ''/'',
            url_search = [], url_hash = [] \<rparr>"
  by (simp add: simpleURL_defs)

lemma simpleURL_mailto:
  "simpleURL ''mailto:a@b.com'' =
     Some \<lparr> url_href = ''mailto:a@b.com'', url_protocol = ''mailto:'',
            url_host = [], url_pathname = ''a@b.com'',
            url_search = [], url_hash = [] \<rparr>"
  by (simp add: simpleURL_defs)

lemma simpleURL_tel:
  "simpleURL ''tel:+188899956754'' =
     Some \<lparr> url_href = ''tel:+188899956754'', url_protocol = ''tel:'',
            url_host = [], url_pathname = ''+188899956754'',
            url_search = [], url_hash = [] \<rparr>"
  by (simp add: simpleURL_defs)

lemma simpleURL_bare_domain: "simpleURL ''youtube.com'' = None"
  by (simp add: simpleURL_defs)

lemma simpleURL_relative: "simpleURL ''contact'' = None"
  by (simp add: simpleURL_defs)

lemma simpleURL_fake_youtube:
  "simpleURL ''https://remix-isomorphic-link.com/youtube.com'' =
     Some \<lparr> url_href = ''https://remix-isomorphic-link.com/youtube.com'',
            url_protocol = ''https:'', url_host = ''remix-isomorphic-link.com'',
            url_pathname = ''/youtube.com'', url_search = [], url_hash = [] \<rparr>"
  by (simp add: simpleURL_defs)

lemma simpleURL_fake_contact:
  "simpleURL ''https://remix-isomorphic-link.com/contact'' =
     Some \<lparr> url_href = ''https://remix-isomorphic-link.com/contact'',
            url_protocol = ''https:'', url_host = ''remix-isomorphic-link.com'',
            url_pathname = ''/contact'', url_search = [], url_hash = [] \<rparr>"
  by (simp add: simpleURL_defs)

lemma fakeUrl_youtube: "fakeUrl ''youtube.com'' (Some ''example.com'') =
    ''https://remix-isomorphic-link.com/youtube.com''"
  by (simp add: fakeUrl_def sanitizedHref_def startsWith_def)

lemma fakeUrl_contact: "fakeUrl ''contact'' None = ''https://remix-isomorphic-link.com/contact''"
  by (simp add: fakeUrl_def sanitizedHref_def startsWith_def)

text \<open>
  The synthetic address is the fixed base followed by a string that starts with a slash,
  and \<open>simpleURL\<close> accepts every such address with a pathname that starts with a
  slash: the premises on the synthetic address in the theorems on rejected targets below
  are met by this constructor for every target and every host.
\<close>

lemma fakeUrl_shape: "\<exists>y. fakeUrl s hst = ''https://remix-isomorphic-link.com/'' @ y"
  by (auto simp add: fakeUrl_def startsWith_slash)

lemma simpleURL_synthetic:
  "\<exists>v. simpleURL (''https://remix-isomorphic-link.com/'' @ y) = Some v
       \<and> startsWith (url_pathname v) ''/''"
  by (simp add: simpleURL_defs startsWith_slash)

lemma simpleURL_accepts_fakeUrl:
  "\<exists>v. simpleURL (fakeUrl s hst) = Some v \<and> startsWith (url_pathname v) ''/''"
  using fakeUrl_shape [of s hst] simpleURL_synthetic by metis

section \<open>Structured targets\<close>

text \<open>
  C3. A structured (object) target together with an explicit external flag of \<open>true\<close>
  makes \<open>sanitizeTo\<close> throw the misuse error, whatever the host, the trailing-slash
  policy and the URL constructor are: no value is returned and the flag is not ignored.
\<close>

theorem sanitizeTo_path_explicit_throws:
  "sanitizeTo U (ToPath p) useTrailingSlash (Some True) hst =
     Inl (Error (''remix-isomorphic-link: '' @ misuse_message))"
  by (simp add: sanitizeTo_def throwError_def)

text \<open>
  C8, as the program has it. For a structured target without a truthy external flag,
  \<open>sanitizeTo\<close> returns \<open>False\<close> and a structured target whose \<open>search\<close> and \<open>hash\<close>
  are those of the input. With the trailing-slash policy off the \<open>pathname\<close> is the
  input's. With the policy on, a non-empty \<open>pathname\<close> goes through \<open>addFinalSlash\<close>,
  while an empty or missing one is left as it is (the guard \<open>useTrailingSlash && pathname\<close>).
\<close>

theorem sanitizeTo_path_internal:
  assumes "\<not> truthy ext"
  shows "\<exists>q. sanitizeTo U (ToPath p) ts ext hst = Inr (False, ToPath q)
           \<and> path_search q = path_search p
           \<and> path_hash q = path_hash p
           \<and> (\<not> truthy ts \<longrightarrow> path_pathname q = path_pathname p)
           \<and> (truthy ts \<longrightarrow>
                (case path_pathname p of
                   None \<Rightarrow> path_pathname q = None
                 | Some x \<Rightarrow> path_pathname q = Some (if x = [] then [] else addFinalSlash x)))"
  using assms by (simp add: sanitizeTo_def split: option.split)

theorem sanitizeTo_path_internal_witness:
  "\<not> truthy None \<and>
   (\<exists>q. sanitizeTo simpleURL
           (ToPath \<lparr> path_pathname = Some ''/contact'', path_search = Some ''?foo=bar'',
                     path_hash = Some ''#baz'' \<rparr>) (Some True) None (Some ''example.com'')
         = Inr (False, ToPath q)
       \<and> path_search q = Some ''?foo=bar''
       \<and> path_hash q = Some ''#baz''
       \<and> path_pathname q = Some ''/contact/'')"
  using sanitizeTo_path_internal [of None simpleURL
      "\<lparr> path_pathname = Some ''/contact'', path_search = Some ''?foo=bar'',
         path_hash = Some ''#baz'' \<rparr>" "Some True" "Some ''example.com''"]
  by (simp add: addFinalSlash_def)

text \<open>
  C8 as the specification words it fails: with the policy on, the empty \<open>pathname\<close> of a
  structured target stays empty, although \<open>addFinalSlash\<close> maps the empty string to \<open>/\<close>.
\<close>

theorem sanitizeTo_path_empty_pathname_counterexample:
  "sanitizeTo simpleURL
     (ToPath \<lparr> path_pathname = Some [], path_search = Some ''?foo=bar'', path_hash = None \<rparr>)
     (Some True) None None
   = Inr (False,
          ToPath \<lparr> path_pathname = Some [], path_search = Some ''?foo=bar'', path_hash = None \<rparr>)
   \<and> addFinalSlash [] = ''/''"
  by (simp add: sanitizeTo_def addFinalSlash_def)

section \<open>The trailing slash\<close>

text \<open>
  C4. \<open>addFinalSlash\<close> maps the empty pathname to \<open>/\<close>, returns a pathname that ends in
  a slash unchanged, appends a slash to any other pathname, and is idempotent.
\<close>

theorem addFinalSlash_spec:
  "addFinalSlash [] = ''/''
   \<and> (p \<noteq> [] \<and> last p = CHR ''/'' \<longrightarrow> addFinalSlash p = p)
   \<and> (p \<noteq> [] \<and> last p \<noteq> CHR ''/'' \<longrightarrow> addFinalSlash p = p @ ''/'')
   \<and> addFinalSlash (addFinalSlash p) = addFinalSlash p"
proof -
  have "addFinalSlash (addFinalSlash p) = addFinalSlash p"
    using addFinalSlash_ends [of p] by (simp add: addFinalSlash_keep)
  then show ?thesis
    by (simp add: addFinalSlash_empty addFinalSlash_keep addFinalSlash_append)
qed

theorem addFinalSlash_spec_witness:
  "(''/contact/'' \<noteq> [] \<and> last ''/contact/'' = CHR ''/'')
   \<and> addFinalSlash ''/contact/'' = ''/contact/''
   \<and> (''/contact'' \<noteq> [] \<and> last ''/contact'' \<noteq> CHR ''/'')
   \<and> addFinalSlash ''/contact'' = ''/contact/''
   \<and> addFinalSlash (addFinalSlash ''/contact'') = addFinalSlash ''/contact''"
  using addFinalSlash_spec [of "''/contact/''"] addFinalSlash_spec [of "''/contact''"]
  by simp

section \<open>Targets that parse as absolute URLs\<close>

text \<open>
  C5. A string target that the URL constructor accepts and whose parsed host is not the
  configured host (in particular when no host is configured) is outgoing, and
  \<open>sanitizeTo\<close> returns the input string itself, for every trailing-slash policy and
  every value of the external flag.
\<close>

theorem sanitizeTo_foreign_host_outgoing:
  assumes "U s = Some u" and "hst \<noteq> Some (url_host u)"
  shows "sanitizeTo U (ToString s) ts ext hst = Inr (True, ToString s)"
  using assms sanitizeTo_url [of U s u ts ext hst] by simp

theorem sanitizeTo_foreign_host_outgoing_witness:
  "simpleURL ''https://youtube.com'' =
     Some \<lparr> url_href = ''https://youtube.com/'', url_protocol = ''https:'',
            url_host = ''youtube.com'', url_pathname = ''/'',
            url_search = [], url_hash = [] \<rparr>
   \<and> Some ''example.com'' \<noteq> Some ''youtube.com''
   \<and> sanitizeTo simpleURL (ToString ''https://youtube.com'') (Some True) None
         (Some ''example.com'') = Inr (True, ToString ''https://youtube.com'')
   \<and> sanitizeTo simpleURL (ToString ''https://youtube.com'') None None None
         = Inr (True, ToString ''https://youtube.com'')"
  using sanitizeTo_foreign_host_outgoing [where U = simpleURL and s = "''https://youtube.com''"
          and hst = "Some ''example.com''" and ts = "Some True" and ext = None,
          OF simpleURL_youtube]
        sanitizeTo_foreign_host_outgoing [where U = simpleURL and s = "''https://youtube.com''"
          and hst = None and ts = None and ext = None, OF simpleURL_youtube]
  by (simp add: simpleURL_youtube)

text \<open>
  C6. A string target that the URL constructor accepts and whose parsed host is the
  configured host is internal, and the router target is assembled from the parsed URL:
  its pathname (through \<open>addFinalSlash\<close> when the policy is on), then its search, then
  its hash. The original string, with scheme and host, is not used.
\<close>

theorem sanitizeTo_own_host_internal:
  assumes "U s = Some u" and "hst = Some (url_host u)"
  shows "sanitizeTo U (ToString s) ts ext hst =
           Inr (False,
                ToString ((if truthy ts then addFinalSlash (url_pathname u) else url_pathname u)
                          @ url_search u @ url_hash u))"
  using assms sanitizeTo_url [of U s u ts ext hst] by simp

theorem sanitizeTo_own_host_internal_witness:
  "simpleURL ''https://example.com/contact?foo=bar#baz'' =
     Some \<lparr> url_href = ''https://example.com/contact?foo=bar#baz'', url_protocol = ''https:'',
            url_host = ''example.com'', url_pathname = ''/contact'',
            url_search = ''?foo=bar'', url_hash = ''#baz'' \<rparr>
   \<and> sanitizeTo simpleURL (ToString ''https://example.com/contact?foo=bar#baz'') None None
         (Some ''example.com'') = Inr (False, ToString ''/contact?foo=bar#baz'')
   \<and> sanitizeTo simpleURL (ToString ''https://example.com/contact?foo=bar#baz'') (Some True)
         None (Some ''example.com'') = Inr (False, ToString ''/contact/?foo=bar#baz'')"
  using sanitizeTo_own_host_internal [where U = simpleURL
          and s = "''https://example.com/contact?foo=bar#baz''"
          and hst = "Some ''example.com''" and ts = None and ext = None,
          OF simpleURL_example_query]
        sanitizeTo_own_host_internal [where U = simpleURL
          and s = "''https://example.com/contact?foo=bar#baz''"
          and hst = "Some ''example.com''" and ts = "Some True" and ext = None,
          OF simpleURL_example_query]
  by (simp add: simpleURL_example_query addFinalSlash_def)

text \<open>
  C1, as the program has it. For a string target that the URL constructor accepts, the
  external flag is not consulted: \<open>sanitizeTo\<close> returns the same result for every value
  of the flag, and the target is outgoing exactly when the parsed host differs from the
  configured host.
\<close>

theorem sanitizeTo_url_flag_ignored:
  assumes "U s = Some u"
  shows "sanitizeTo U (ToString s) ts ext hst = sanitizeTo U (ToString s) ts None hst
         \<and> (\<exists>t. sanitizeTo U (ToString s) ts ext hst = Inr (hst \<noteq> Some (url_host u), t))"
  using assms sanitizeTo_url [of U s u ts ext hst] sanitizeTo_url [of U s u ts None hst]
  by simp

theorem sanitizeTo_url_flag_ignored_witness:
  "simpleURL ''https://example.com/contact'' =
     Some \<lparr> url_href = ''https://example.com/contact'', url_protocol = ''https:'',
            url_host = ''example.com'', url_pathname = ''/contact'',
            url_search = [], url_hash = [] \<rparr>
   \<and> sanitizeTo simpleURL (ToString ''https://example.com/contact'') None (Some True)
         (Some ''example.com'')
       = sanitizeTo simpleURL (ToString ''https://example.com/contact'') None None
           (Some ''example.com'')
   \<and> (\<exists>t. sanitizeTo simpleURL (ToString ''https://example.com/contact'') None (Some True)
              (Some ''example.com'') = Inr (False, t))"
proof -
  let ?u = "\<lparr> url_href = ''https://example.com/contact'', url_protocol = ''https:'',
             url_host = ''example.com'', url_pathname = ''/contact'',
             url_search = [], url_hash = [] \<rparr>"
  have same: "(Some ''example.com'' \<noteq> Some (url_host ?u)) = False"
    by simp
  note w = sanitizeTo_url_flag_ignored [where U = simpleURL
          and s = "''https://example.com/contact''" and ts = None and ext = "Some True"
          and hst = "Some ''example.com''", OF simpleURL_example_contact]
  from simpleURL_example_contact w [unfolded same] show ?thesis
    by (rule conjI)
qed

text \<open>
  C1 as the specification words it fails: with host \<open>example.com\<close> and the external flag
  \<open>true\<close>, the target \<open>https://example.com/contact\<close> is classified internal and the
  router target is \<open>/contact\<close>; it is not returned unchanged as an outgoing address.
\<close>

theorem sanitizeTo_same_host_flag_counterexample:
  "sanitizeTo simpleURL (ToString ''https://example.com/contact'') None (Some True)
     (Some ''example.com'') = Inr (False, ToString ''/contact'')
   \<and> sanitizeTo simpleURL (ToString ''https://example.com/contact'') None (Some True)
     (Some ''example.com'') \<noteq> Inr (True, ToString ''https://example.com/contact'')"
  by (simp add: sanitizeTo_url [where U = simpleURL and s = "''https://example.com/contact''",
        OF simpleURL_example_contact])

text \<open>
  C10. The host test is equality of the parsed host with the configured host. A URL
  whose parsed host is the empty string, as for \<open>mailto:\<close> and \<open>tel:\<close>, is therefore
  outgoing for every configuration except the configured host \<open>""\<close>, for which it is
  internal.
\<close>

theorem host_comparison_strict:
  "isOutgoing (urlToHref u hst) = (hst \<noteq> Some (url_host u))
   \<and> (U s = Some u \<and> url_host u = [] \<longrightarrow>
        (\<exists>h. parseHref U s hst ext = Inr h \<and> isOutgoing h = (hst \<noteq> Some [])))"
  by (auto simp add: parseHref_url isOutgoing_urlToHref)

theorem host_comparison_strict_witness:
  "(simpleURL ''mailto:a@b.com'' =
      Some \<lparr> url_href = ''mailto:a@b.com'', url_protocol = ''mailto:'',
             url_host = [], url_pathname = ''a@b.com'', url_search = [], url_hash = [] \<rparr>)
   \<and> (\<exists>h. parseHref simpleURL ''mailto:a@b.com'' (Some ''example.com'') None = Inr h
          \<and> isOutgoing h)
   \<and> (\<exists>h. parseHref simpleURL ''mailto:a@b.com'' None None = Inr h \<and> isOutgoing h)
   \<and> (\<exists>h. parseHref simpleURL ''mailto:a@b.com'' (Some []) None = Inr h \<and> \<not> isOutgoing h)
   \<and> (simpleURL ''tel:+188899956754'' =
      Some \<lparr> url_href = ''tel:+188899956754'', url_protocol = ''tel:'',
             url_host = [], url_pathname = ''+188899956754'', url_search = [],
             url_hash = [] \<rparr>)
   \<and> (\<exists>h. parseHref simpleURL ''tel:+188899956754'' (Some ''example.com'') None = Inr h
          \<and> isOutgoing h)
   \<and> (\<exists>h. parseHref simpleURL ''tel:+188899956754'' (Some []) None = Inr h
          \<and> \<not> isOutgoing h)"
proof -
  let ?m = "\<lparr> url_href = ''mailto:a@b.com'', url_protocol = ''mailto:'',
             url_host = [], url_pathname = ''a@b.com'', url_search = [], url_hash = [] \<rparr>"
  let ?t = "\<lparr> url_href = ''tel:+188899956754'', url_protocol = ''tel:'',
             url_host = [], url_pathname = ''+188899956754'', url_search = [],
             url_hash = [] \<rparr>"
  have m: "simpleURL ''mailto:a@b.com'' = Some ?m"
    by (rule simpleURL_mailto)
  have t: "simpleURL ''tel:+188899956754'' = Some ?t"
    by (rule simpleURL_tel)
  have m1: "\<exists>h. parseHref simpleURL ''mailto:a@b.com'' (Some ''example.com'') None = Inr h
              \<and> isOutgoing h"
    using m host_comparison_strict [of ?m "Some ''example.com''" simpleURL
            "''mailto:a@b.com''" None]
    by simp
  have m2: "\<exists>h. parseHref simpleURL ''mailto:a@b.com'' None None = Inr h \<and> isOutgoing h"
    using m host_comparison_strict [of ?m None simpleURL "''mailto:a@b.com''" None]
    by simp
  have m3: "\<exists>h. parseHref simpleURL ''mailto:a@b.com'' (Some []) None = Inr h
              \<and> \<not> isOutgoing h"
    using m host_comparison_strict [of ?m "Some []" simpleURL "''mailto:a@b.com''" None]
    by simp
  have t1: "\<exists>h. parseHref simpleURL ''tel:+188899956754'' (Some ''example.com'') None = Inr h
              \<and> isOutgoing h"
    using t host_comparison_strict [of ?t "Some ''example.com''" simpleURL
            "''tel:+188899956754''" None]
    by simp
  have t2: "\<exists>h. parseHref simpleURL ''tel:+188899956754'' (Some []) None = Inr h
              \<and> \<not> isOutgoing h"
    using t host_comparison_strict [of ?t "Some []" simpleURL "''tel:+188899956754''" None]
    by simp
  from m t m1 m2 m3 t1 t2 show ?thesis
    by blast
qed

section \<open>Targets that do not parse as absolute URLs\<close>

text \<open>
  C7. A string target that the URL constructor rejects, with the external flag \<open>true\<close>,
  is outgoing and \<open>sanitizeTo\<close> returns it verbatim. \<open>parseHref\<close> keeps the string as
  \<open>href\<close> and leaves pathname, search and hash empty: the string is not parsed further,
  no host is stripped and no slash is added, for every host and trailing-slash policy.
\<close>

theorem sanitizeTo_non_url_explicit_verbatim:
  assumes "U s = None"
  shows "parseHref U s hst (Some True) =
           Inr \<lparr> href = s, prototcol = [], host = [], pathname = [], search = [], hash = [],
                 isOutgoing = True, isAbsolute = True \<rparr>
         \<and> sanitizeTo U (ToString s) ts (Some True) hst = Inr (True, ToString s)"
proof -
  have opaque: "parseHref U s hst (Some True) =
           Inr \<lparr> href = s, prototcol = [], host = [], pathname = [], search = [], hash = [],
                 isOutgoing = True, isAbsolute = True \<rparr>"
    using assms by (simp add: parseHref_opaque)
  then have "sanitizeTo U (ToString s) ts (Some True) hst = Inr (True, ToString s)"
    by (simp add: sanitizeTo_def)
  with opaque show ?thesis
    by (rule conjI)
qed

theorem sanitizeTo_non_url_explicit_verbatim_witness:
  "simpleURL ''youtube.com'' = None
   \<and> sanitizeTo simpleURL (ToString ''youtube.com'') (Some True) (Some True)
        (Some ''youtube.com'') = Inr (True, ToString ''youtube.com'')"
  using sanitizeTo_non_url_explicit_verbatim [where U = simpleURL and s = "''youtube.com''"
          and hst = "Some ''youtube.com''" and ts = "Some True"]
  by (simp add: simpleURL_bare_domain)

text \<open>
  C2. A string target that the URL constructor rejects, without a truthy external flag,
  is classified internal, whatever the configured host is and whatever the string looks
  like. \<open>parseHref\<close> hands the synthetic address \<open>fakeUrl\<close> to the URL constructor
  outside any \<open>try\<close>, so the result exists when the constructor accepts that address;
  the address always starts with \<open>https://remix-isomorphic-link.com/\<close>.
\<close>

theorem parseHref_non_url_internal:
  assumes "U s = None" and "\<not> truthy ext" and "U (fakeUrl s hst) = Some v"
  shows "(\<exists>h. parseHref U s hst ext = Inr h \<and> \<not> isOutgoing h)
         \<and> (\<exists>t. sanitizeTo U (ToString s) ts ext hst = Inr (False, t))"
proof -
  let ?h = "\<lparr> href = s, prototcol = [], host = [],
              pathname = url_pathname v, search = url_search v, hash = url_hash v,
              isOutgoing = False,
              isAbsolute = startsWith (sanitizedHref s hst) ''/'' \<rparr>"
  from assms have p: "parseHref U s hst ext = Inr ?h"
    by (rule parseHref_guess)
  then have "\<exists>t. sanitizeTo U (ToString s) ts ext hst = Inr (False, t)"
    by (simp add: sanitizeTo_def)
  moreover from p have "\<exists>h. parseHref U s hst ext = Inr h \<and> \<not> isOutgoing h"
    by simp
  ultimately show ?thesis
    by simp
qed

theorem parseHref_non_url_internal_witness:
  "simpleURL ''youtube.com'' = None
   \<and> \<not> truthy None
   \<and> simpleURL (fakeUrl ''youtube.com'' (Some ''example.com'')) =
       Some \<lparr> url_href = ''https://remix-isomorphic-link.com/youtube.com'',
              url_protocol = ''https:'', url_host = ''remix-isomorphic-link.com'',
              url_pathname = ''/youtube.com'', url_search = [], url_hash = [] \<rparr>
   \<and> (\<exists>h. parseHref simpleURL ''youtube.com'' (Some ''example.com'') None = Inr h
          \<and> \<not> isOutgoing h)
   \<and> (\<exists>t. sanitizeTo simpleURL (ToString ''youtube.com'') None None (Some ''example.com'')
          = Inr (False, t))"
proof -
  let ?v = "\<lparr> url_href = ''https://remix-isomorphic-link.com/youtube.com'',
              url_protocol = ''https:'', url_host = ''remix-isomorphic-link.com'',
              url_pathname = ''/youtube.com'', url_search = [], url_hash = [] \<rparr>"
  have a: "simpleURL ''youtube.com'' = None"
    by (rule simpleURL_bare_domain)
  have b: "\<not> truthy None"
    by simp
  have c: "simpleURL (fakeUrl ''youtube.com'' (Some ''example.com'')) = Some ?v"
    by (simp only: fakeUrl_youtube simpleURL_fake_youtube)
  note w = parseHref_non_url_internal [where U = simpleURL and s = "''youtube.com''"
             and ext = None and hst = "Some ''example.com''" and v = ?v and ts = None,
             OF a b c]
  from a b c w show ?thesis
    by simp
qed

text \<open>
  C9, as the program has it. A string target classified internal comes back as the
  pathname (through \<open>addFinalSlash\<close> when the policy is on), search and hash that the URL
  constructor produced, and this string begins with a slash whenever that pathname does.
  For a target the constructor rejects, the pathname is the one of the synthetic address,
  which always starts with \<open>https://remix-isomorphic-link.com/\<close>; for a target the
  constructor accepts and whose host is the configured one, it is the target's own
  pathname.
\<close>

theorem sanitizeTo_internal_leading_slash:
  assumes "case U s of
             Some u \<Rightarrow> hst = Some (url_host u) \<and> startsWith (url_pathname u) ''/''
           | None \<Rightarrow> \<not> truthy ext
                      \<and> (\<exists>v. U (fakeUrl s hst) = Some v \<and> startsWith (url_pathname v) ''/'')"
  shows "(\<exists>r. sanitizeTo U (ToString s) ts ext hst = Inr (False, ToString r)
              \<and> startsWith r ''/'')
         \<and> startsWith (fakeUrl s hst) ''https://remix-isomorphic-link.com/''"
proof -
  have lead: "startsWith ((if truthy ts then addFinalSlash p else p) @ q @ r) ''/''"
    if "startsWith p ''/''" for p q r
    using that addFinalSlash_leading [OF that] by (auto simp add: startsWith_slash)
  have "\<exists>r. sanitizeTo U (ToString s) ts ext hst = Inr (False, ToString r)
             \<and> startsWith r ''/''"
  proof (cases "U s")
    case (Some u)
    with assms have own: "hst = Some (url_host u)" and sl: "startsWith (url_pathname u) ''/''"
      by simp_all
    from Some own sanitizeTo_url [of U s u ts ext hst]
    have "sanitizeTo U (ToString s) ts ext hst =
            Inr (False,
                 ToString ((if truthy ts then addFinalSlash (url_pathname u)
                            else url_pathname u) @ url_search u @ url_hash u))"
      by simp
    with lead [OF sl] show ?thesis
      by blast
  next
    case None
    with assms obtain v where flag: "\<not> truthy ext"
      and fake: "U (fakeUrl s hst) = Some v" and sl: "startsWith (url_pathname v) ''/''"
      by auto
    from None flag fake have "parseHref U s hst ext =
           Inr \<lparr> href = s, prototcol = [], host = [],
                 pathname = url_pathname v, search = url_search v, hash = url_hash v,
                 isOutgoing = False,
                 isAbsolute = startsWith (sanitizedHref s hst) ''/'' \<rparr>"
      by (rule parseHref_guess)
    then have "sanitizeTo U (ToString s) ts ext hst =
            Inr (False,
                 ToString ((if truthy ts then addFinalSlash (url_pathname v)
                            else url_pathname v) @ url_search v @ url_hash v))"
      by (simp add: sanitizeTo_def)
    with lead [OF sl] show ?thesis
      by blast
  qed
  then show ?thesis
    using fakeUrl_base [of s hst] by simp
qed

theorem sanitizeTo_internal_leading_slash_witness:
  "simpleURL ''contact'' = None
   \<and> \<not> truthy None
   \<and> simpleURL (fakeUrl ''contact'' None) =
       Some \<lparr> url_href = ''https://remix-isomorphic-link.com/contact'',
              url_protocol = ''https:'', url_host = ''remix-isomorphic-link.com'',
              url_pathname = ''/contact'', url_search = [], url_hash = [] \<rparr>
   \<and> startsWith ''/contact'' ''/''
   \<and> sanitizeTo simpleURL (ToString ''contact'') None None None
       = Inr (False, ToString ''/contact'')
   \<and> sanitizeTo simpleURL (ToString ''contact'') (Some True) None None
       = Inr (False, ToString ''/contact/'')"
proof -
  let ?v = "\<lparr> url_href = ''https://remix-isomorphic-link.com/contact'',
              url_protocol = ''https:'', url_host = ''remix-isomorphic-link.com'',
              url_pathname = ''/contact'', url_search = [], url_hash = [] \<rparr>"
  have a: "simpleURL ''contact'' = None"
    by (rule simpleURL_relative)
  have c: "simpleURL (fakeUrl ''contact'' None) = Some ?v"
    by (simp only: fakeUrl_contact simpleURL_fake_contact)
  have d: "startsWith ''/contact'' ''/''"
    by (simp add: startsWith_def)
  have hyp: "case simpleURL ''contact'' of
               Some u \<Rightarrow> None = Some (url_host u) \<and> startsWith (url_pathname u) ''/''
             | None \<Rightarrow> \<not> truthy None
                        \<and> (\<exists>v. simpleURL (fakeUrl ''contact'' None) = Some v
                                \<and> startsWith (url_pathname v) ''/'')"
    using a c d by simp
  note w1 = sanitizeTo_internal_leading_slash [where U = simpleURL and s = "''contact''"
              and hst = None and ext = None and ts = None, OF hyp]
  note w2 = sanitizeTo_internal_leading_slash [where U = simpleURL and s = "''contact''"
              and hst = None and ext = None and ts = "Some True", OF hyp]
  have r1: "sanitizeTo simpleURL (ToString ''contact'') None None None
              = Inr (False, ToString ''/contact'')"
    using w1 a c by (auto simp add: sanitizeTo_def parseHref_def isUrl_def)
  have r2: "sanitizeTo simpleURL (ToString ''contact'') (Some True) None None
              = Inr (False, ToString ''/contact/'')"
    using w2 a c by (auto simp add: sanitizeTo_def parseHref_def isUrl_def addFinalSlash_def)
  from a c d r1 r2 show ?thesis
    by simp
qed

text \<open>
  C9 as the specification words it fails: with the configured host \<open>""\<close> the target
  \<open>mailto:a@b.com\<close> is classified internal, and the string returned is \<open>a@b.com\<close>,
  which does not begin with a slash.
\<close>

theorem sanitizeTo_mailto_empty_host_counterexample:
  "sanitizeTo simpleURL (ToString ''mailto:a@b.com'') None None (Some [])
     = Inr (False, ToString ''a@b.com'')
   \<and> \<not> startsWith ''a@b.com'' ''/''"
  by (simp add: sanitizeTo_url [where U = simpleURL and s = "''mailto:a@b.com''",
        OF simpleURL_mailto] startsWith_def)

end
